theory Spec2Isabelle
  imports Complex_Main "HOL-Library.Word"
begin

section \<open>The server of the car boot sale site\<close>

text \<open>
  This theory embeds the functions that the server file defines: the two validation
  middlewares, the file-name callbacks of the two disk storages, the image file filter and
  the eight route handlers on the status, gallery and hero records.

  Scope. Library middleware that runs before a route's own chain (helmet, cors, the static
  file servers and the two rate limiters) is not modelled: a request is the request as those
  hand it on. The chain of a route is written as a function of the properties of \<open>req.body\<close>
  and of the file parts that the multipart parser finds. What a request delivers of the two
  is decided by the body parsers and is written out in the subsection on upload requests: the
  password middleware of an upload route reads \<open>req.body\<close> before the multipart parser has
  run.
\<close>

subsection \<open>JavaScript strings and values\<close>

text \<open>A JavaScript string is a sequence of 16-bit code units; \<open>length\<close> counts them.\<close>

type_synonym jschar = "16 word"
type_synonym jsstring = "jschar list"

text \<open>String literals of the source are ASCII; \<open>js\<close> turns one into code units.\<close>

definition js :: "string \<Rightarrow> jsstring" where
  "js s = map of_char s"

text \<open>
  The values that \<open>JSON.parse\<close> and the body parsers produce, with \<open>JUndefined\<close> for a
  property that an object lacks. A number is never \<open>NaN\<close> here, since JSON has no such
  literal. An object lists each key once.
\<close>

datatype jsval =
    JUndefined
  | JNull
  | JBool bool
  | JNum rat
  | JStr jsstring
  | JArr "jsval list"
  | JObj "(jsstring \<times> jsval) list"

datatype jstype = TUndefined | TObject | TBoolean | TNumber | TString

fun typeof :: "jsval \<Rightarrow> jstype" where
  "typeof JUndefined = TUndefined"
| "typeof JNull = TObject"
| "typeof (JBool b) = TBoolean"
| "typeof (JNum n) = TNumber"
| "typeof (JStr s) = TString"
| "typeof (JArr xs) = TObject"
| "typeof (JObj kvs) = TObject"

text \<open>Truthiness, as \<open>!v\<close>, \<open>v && w\<close>, \<open>v || w\<close>, \<open>if (v)\<close> and \<open>Boolean(v)\<close> read it.\<close>

fun truthy :: "jsval \<Rightarrow> bool" where
  "truthy JUndefined = False"
| "truthy JNull = False"
| "truthy (JBool b) = b"
| "truthy (JNum n) = (n \<noteq> 0)"
| "truthy (JStr s) = (s \<noteq> [])"
| "truthy (JArr xs) = True"
| "truthy (JObj kvs) = True"

text \<open>\<open>v || w\<close>\<close>

definition js_or :: "jsval \<Rightarrow> jsval \<Rightarrow> jsval" where
  "js_or v w = (if truthy v then v else w)"

text \<open>
  Property access \<open>v.k\<close> for a key that no prototype defines (\<open>filename\<close>, \<open>images\<close>,
  \<open>status\<close>, \<open>notice\<close>): the own property of an object, or \<open>undefined\<close> when it has none;
  a \<open>TypeError\<close> (\<open>None\<close>) on \<open>null\<close> and \<open>undefined\<close>; \<open>undefined\<close> on everything else.
\<close>

definition own_prop :: "(jsstring \<times> jsval) list \<Rightarrow> jsstring \<Rightarrow> jsval" where
  "own_prop kvs k = (case map_of kvs k of Some v \<Rightarrow> v | None \<Rightarrow> JUndefined)"

fun get_prop :: "jsval \<Rightarrow> jsstring \<Rightarrow> jsval option" where
  "get_prop JUndefined k = None"
| "get_prop JNull k = None"
| "get_prop (JObj kvs) k = Some (own_prop kvs k)"
| "get_prop v k = Some JUndefined"

text \<open>Assignment \<open>o.k = v\<close> on an object: the key keeps its place, a new key goes last.\<close>

fun assign :: "(jsstring \<times> jsval) list \<Rightarrow> jsstring \<Rightarrow> jsval \<Rightarrow> (jsstring \<times> jsval) list" where
  "assign [] k v = [(k, v)]"
| "assign ((k', v') # kvs) k v = (if k' = k then (k, v) # kvs else (k', v') # assign kvs k v)"

subsection \<open>Responses\<close>

text \<open>
  A route answers with \<open>res.status(n).json(body)\<close> (\<open>res.json(body)\<close> is status 200), or its
  upload middleware hands an error to \<open>next\<close>, which ends the request in the error handling
  of the framework without reaching the handler.
\<close>

datatype upload_error =
    LIMIT_FILE_SIZE
  | LIMIT_FILE_COUNT
  | LIMIT_UNEXPECTED_FILE
  | FilterError jsstring

datatype response =
    Json nat jsval
  | NextError upload_error

definition error_json :: "nat \<Rightarrow> string \<Rightarrow> response" where
  "error_json code msg = Json code (JObj [(js ''error'', JStr (js msg))])"

definition success_json :: "jsstring \<Rightarrow> response" where
  "success_json msg = Json 200 (JObj [(js ''success'', JBool True), (js ''message'', JStr msg)])"

subsection \<open>Configuration, environment and state\<close>

text \<open>\<open>process.env.ADMIN_PASSWORD\<close>: \<open>None\<close> when the variable is not set.\<close>

record config =
  env_ADMIN_PASSWORD :: "jsstring option"

text \<open>\<open>process.env.ADMIN_PASSWORD || 'noblesrhyl1121'\<close>: an empty variable is falsy.\<close>

definition ADMIN_PASSWORD :: "config \<Rightarrow> jsstring" where
  "ADMIN_PASSWORD cfg =
     (case env_ADMIN_PASSWORD cfg of
        None \<Rightarrow> js ''noblesrhyl1121''
      | Some p \<Rightarrow> if p \<noteq> [] then p else js ''noblesrhyl1121'')"

text \<open>
  What a write of a record file does: it succeeds, or it fails before the file is opened
  (the file keeps its content), or it fails after the file was truncated (the file no longer
  parses).
\<close>

datatype write_outcome = WriteOk | WriteFailsUntouched | WriteFailsTruncated

text \<open>
  What one request reads from outside the program: the clock, the random number generator
  and the disk. The clock and the generator are read once per uploaded file, so they are
  indexed by the position of the file in the request.
  \<^item> \<open>toISOString k\<close>: the value of the \<open>k\<close>-th \<open>new Date().toISOString()\<close> of the handler;
  \<^item> \<open>Date_now k\<close>: \<open>Date.now()\<close>, in milliseconds, when the \<open>k\<close>-th file is named;
  \<^item> \<open>random_1E9 k\<close>: \<open>Math.round(Math.random() * 1E9)\<close> when the \<open>k\<close>-th file is named;
  \<^item> \<open>write_result\<close>: the outcome of the handler's \<open>fs.writeFile\<close>;
  \<^item> \<open>unlink_ok\<close>: whether \<open>fs.unlink\<close> of an existing file goes through.
\<close>

record env =
  toISOString :: "nat \<Rightarrow> jsstring"
  Date_now :: "nat \<Rightarrow> nat"
  random_1E9 :: "nat \<Rightarrow> nat"
  write_result :: write_outcome
  unlink_ok :: bool

text \<open>
  The state on disk. A record file is \<open>None\<close> when it is missing or does not parse
  (\<open>fs.readFile\<close> or \<open>JSON.parse\<close> throws), and otherwise the document it holds:
  \<open>JSON.parse\<close> gives back the document that \<open>JSON.stringify\<close> wrote, for the documents
  written here (objects of booleans, strings, \<open>null\<close>, integers and arrays of such objects).
  An upload directory maps the names of its files to their bytes.
\<close>

type_synonym directory = "jsstring \<rightharpoonup> 8 word list"

record server_state =
  DATA_FILE :: "jsval option"
  GALLERY_FILE :: "jsval option"
  HERO_BG_FILE :: "jsval option"
  GALLERY_UPLOADS_DIR :: directory
  HERO_UPLOADS_DIR :: directory

text \<open>\<open>fs.writeFile(file, JSON.stringify(doc, null, 2))\<close>: whether it went through, and the file after it.\<close>

definition writeFile :: "env \<Rightarrow> jsval option \<Rightarrow> jsval \<Rightarrow> bool \<times> jsval option" where
  "writeFile e old doc =
     (case write_result e of
        WriteOk \<Rightarrow> (True, Some doc)
      | WriteFailsUntouched \<Rightarrow> (False, old)
      | WriteFailsTruncated \<Rightarrow> (False, None))"

subsection \<open>The validation middlewares\<close>

text \<open>
  The properties that the middlewares and handlers destructure from \<open>req.body\<close>; a property
  that the body lacks is \<open>JUndefined\<close>.
\<close>

record body =
  password :: jsval
  status :: jsval
  notice :: jsval

text \<open>A middleware answers (\<open>Some\<close>) or calls \<open>next()\<close> (\<open>None\<close>).\<close>

definition validateStatusData :: "body \<Rightarrow> response option" where
  "validateStatusData b =
     (if typeof (status b) \<noteq> TBoolean then
        Some (error_json 400 ''Status must be a boolean value'')
      else if truthy (notice b) \<and> typeof (notice b) \<noteq> TString then
        Some (error_json 400 ''Notice must be a string'')
      else if truthy (notice b) \<and> (case notice b of JStr n \<Rightarrow> length n > 500 | _ \<Rightarrow> False) then
        Some (error_json 400 ''Notice must be less than 500 characters'')
      else None)"

text \<open>
  \<open>password !== ADMIN_PASSWORD\<close> is strict: only the string with the same code units is
  equal to the secret.
\<close>

definition validatePassword :: "config \<Rightarrow> body \<Rightarrow> response option" where
  "validatePassword cfg b =
     (if \<not> truthy (password b) \<or> password b \<noteq> JStr (ADMIN_PASSWORD cfg) then
        Some (error_json 401 ''Invalid password'')
      else None)"

subsection \<open>The status record\<close>

text \<open>\<open>GET /api/status\<close>\<close>

definition get_status :: "server_state \<Rightarrow> response" where
  "get_status s =
     (case DATA_FILE s of
        Some statusData \<Rightarrow> Json 200 statusData
      | None \<Rightarrow> error_json 500 ''Failed to read status'')"

text \<open>The handler of \<open>POST /api/status\<close>, behind the two middlewares.\<close>

definition post_status_handler :: "env \<Rightarrow> body \<Rightarrow> server_state \<Rightarrow> response \<times> server_state" where
  "post_status_handler e b s =
     (let statusData = JObj [
            (js ''status'', JBool (truthy (status b))),
            (js ''notice'', js_or (notice b) (JStr [])),
            (js ''lastUpdated'', JStr (toISOString e 0))];
          (written, file) = writeFile e (DATA_FILE s) statusData
      in (if written then success_json (js ''Status updated successfully'')
          else error_json 500 ''Failed to update status'',
          s\<lparr>DATA_FILE := file\<rparr>))"

text \<open>\<open>POST /api/status\<close>: \<open>validatePassword\<close>, \<open>validateStatusData\<close>, then the handler.\<close>

definition post_status :: "config \<Rightarrow> env \<Rightarrow> body \<Rightarrow> server_state \<Rightarrow> response \<times> server_state" where
  "post_status cfg e b s =
     (case validatePassword cfg b of
        Some r \<Rightarrow> (r, s)
      | None \<Rightarrow>
          (case validateStatusData b of
             Some r \<Rightarrow> (r, s)
           | None \<Rightarrow> post_status_handler e b s))"

subsection \<open>String functions of the platform\<close>

text \<open>
  The functions of JavaScript and of the \<open>path\<close> module that the server calls. They are not
  part of the repository; they are written out here as the language and the platform define
  them, as far as the server depends on them.
\<close>

text \<open>\<open>s.includes(sub)\<close>: \<open>sub\<close> occurs in \<open>s\<close> as a contiguous run.\<close>

fun js_includes :: "jsstring \<Rightarrow> jsstring \<Rightarrow> bool" where
  "js_includes [] sub = (sub = [])"
| "js_includes (c # cs) sub = (take (length sub) (c # cs) = sub \<or> js_includes cs sub)"

text \<open>\<open>s.slice(a, b)\<close> for \<open>0 \<le> a\<close> and \<open>0 \<le> b\<close>.\<close>

definition slice :: "jsstring \<Rightarrow> nat \<Rightarrow> nat \<Rightarrow> jsstring" where
  "slice s a b = take (b - a) (drop a s)"

text \<open>
  \<open>s.toLowerCase()\<close> on the letters \<open>A\<close> to \<open>Z\<close>. Other code units are left as they are:
  no code unit outside ASCII is lowered to a letter that occurs in an allowed extension.
\<close>

definition toLowerCase :: "jsstring \<Rightarrow> jsstring" where
  "toLowerCase s = map (\<lambda>c. if 0x41 \<le> c \<and> c \<le> 0x5A then c + 0x20 else c) s"

text \<open>
  A non-negative integer below \<open>10\<^sup>2\<^sup>1\<close> turned into a string, as \<open>+\<close> with a string and a
  template literal do it: its decimal digits.
\<close>

fun decimal :: "nat \<Rightarrow> jsstring" where
  "decimal n = (if n < 10 then [0x30 + of_nat n] else decimal (n div 10) @ [0x30 + of_nat (n mod 10)])"

declare decimal.simps [simp del]

text \<open>
  \<open>path.extname\<close> of the platform (POSIX flavour, where \<open>/\<close> is the only separator): one
  pass over the path from its last code unit to its first.
\<close>

record extname_state =
  startDot :: int
  startPart :: nat
  endPos :: int
  matchedSlash :: bool
  preDotState :: int

fun extname_loop :: "jsstring \<Rightarrow> nat \<Rightarrow> extname_state \<Rightarrow> extname_state" where
  "extname_loop path 0 st = st"
| "extname_loop path (Suc i) st =
     (if path ! i = 0x2F then
        (if \<not> matchedSlash st then st\<lparr>startPart := Suc i\<rparr>
         else extname_loop path i st)
      else
        (let st1 = (if endPos st = - 1 then st\<lparr>endPos := int (Suc i), matchedSlash := False\<rparr>
                    else st);
             st2 = (if path ! i = 0x2E then
                      (if startDot st1 = - 1 then st1\<lparr>startDot := int i\<rparr>
                       else if preDotState st1 \<noteq> 1 then st1\<lparr>preDotState := 1\<rparr>
                       else st1)
                    else if startDot st1 \<noteq> - 1 then st1\<lparr>preDotState := - 1\<rparr>
                    else st1)
         in extname_loop path i st2))"

definition extname :: "jsstring \<Rightarrow> jsstring" where
  "extname path =
     (let st = extname_loop path (length path)
                 \<lparr>startDot = - 1, startPart = 0, endPos = - 1, matchedSlash = True,
                  preDotState = 0\<rparr>
      in if startDot st = - 1 \<or> endPos st = - 1 \<or> preDotState st = 0 \<or>
            (preDotState st = 1 \<and> startDot st = endPos st - 1 \<and>
             startDot st = int (startPart st) + 1)
         then []
         else slice path (nat (startDot st)) (nat (endPos st)))"

text \<open>\<open>name.replace(/[^a-zA-Z0-9.-]/g, '_')\<close>: code unit by code unit.\<close>

definition sanitize_unit :: "jschar \<Rightarrow> jschar" where
  "sanitize_unit c =
     (if (0x61 \<le> c \<and> c \<le> 0x7A) \<or> (0x41 \<le> c \<and> c \<le> 0x5A) \<or> (0x30 \<le> c \<and> c \<le> 0x39) \<or>
         c = 0x2E \<or> c = 0x2D
      then c else 0x5F)"

definition sanitize :: "jsstring \<Rightarrow> jsstring" where
  "sanitize name = map sanitize_unit name"

text \<open>
  Iterating a string, as the spread \<open>[...s]\<close> does: by code points, so that a high surrogate
  followed by a low surrogate is one element.
\<close>

fun code_points :: "jsstring \<Rightarrow> jsstring list" where
  "code_points [] = []"
| "code_points [a] = [[a]]"
| "code_points (a # b # cs) =
     (if 0xD800 \<le> a \<and> a \<le> 0xDBFF \<and> 0xDC00 \<le> b \<and> b \<le> 0xDFFF
      then [a, b] # code_points cs
      else [a] # code_points (b # cs))"

text \<open>\<open>[...v]\<close>: \<open>None\<close> is the \<open>TypeError\<close> for a value that cannot be iterated.\<close>

fun spread :: "jsval \<Rightarrow> jsval list option" where
  "spread (JArr xs) = Some xs"
| "spread (JStr s) = Some (map JStr (code_points s))"
| "spread v = None"

subsection \<open>Uploads\<close>

text \<open>
  A file part of a multipart request, as the multipart parser hands it to the file filter
  and to the storage: the name of its form field, the file name and the MIME type that the
  client declared, and its bytes.
\<close>

record file_part =
  fieldname :: jsstring
  originalname :: jsstring
  mimetype :: jsstring
  content :: "8 word list"

text \<open>
  A stored file, as the handler finds it in \<open>req.file\<close> or \<open>req.files\<close>: the part with the
  name that the storage gave it. Its \<open>size\<close> is the number of bytes written, the length of
  \<open>content\<close>.
\<close>

record stored_file = file_part +
  filename :: jsstring

text \<open>The \<open>filename\<close> callback of \<open>galleryStorage\<close>, with the clock and the random number it reads.\<close>

definition galleryStorage_filename :: "nat \<Rightarrow> nat \<Rightarrow> file_part \<Rightarrow> jsstring" where
  "galleryStorage_filename now rnd file =
     (let uniqueSuffix = decimal now @ js ''-'' @ decimal rnd;
          sanitizedName = sanitize (originalname file)
      in js ''gallery-'' @ uniqueSuffix @ extname sanitizedName)"

text \<open>The \<open>filename\<close> callback of \<open>heroStorage\<close>.\<close>

definition heroStorage_filename :: "file_part \<Rightarrow> jsstring" where
  "heroStorage_filename file =
     (let sanitizedName = sanitize (originalname file)
      in js ''hero-background'' @ extname sanitizedName)"

definition allowedMimes :: "jsstring list" where
  "allowedMimes = [js ''image/jpeg'', js ''image/jpg'', js ''image/png'', js ''image/gif'', js ''image/webp'']"

definition allowedExtensions :: "jsstring list" where
  "allowedExtensions = [js ''.jpg'', js ''.jpeg'', js ''.png'', js ''.gif'', js ''.webp'']"

text \<open>\<open>imageFileFilter\<close>: the error it passes to its callback, or \<open>None\<close> when it accepts the file.\<close>

definition imageFileFilter :: "file_part \<Rightarrow> upload_error option" where
  "imageFileFilter file =
     (if mimetype file \<notin> set allowedMimes then
        Some (FilterError (js ''Invalid file type. Only images are allowed.''))
      else
        (let ext = toLowerCase (extname (originalname file))
         in if ext \<notin> set allowedExtensions then
              Some (FilterError (js ''Invalid file extension. Only .jpg, .jpeg, .png, .gif, .webp are allowed.''))
            else None))"

text \<open>
  The upload middleware that the \<open>multer\<close> library builds from a storage, the limits and
  the filter. The library is not part of the repository; this is its behaviour as far as the
  routes depend on it. It takes the file parts in their order. The part at position \<open>k\<close> is refused when \<open>k\<close> files were already
  taken and \<open>k\<close> reaches the limit on files, when its field is not the expected one or the
  field has had its \<open>maxCount\<close> files, when the filter refuses it, or when it is larger than
  \<open>fileSize\<close> (its truncated file is on disk by then). Otherwise the storage names it and
  writes it, over any file of that name. On an error the middleware unlinks every file it
  wrote for this request and passes the error to \<open>next\<close>.
  The arguments after the limits: the position, the parts left, the directory, the files
  stored so far.
\<close>

record limits =
  fileSize :: nat
  files :: nat

definition stored :: "file_part \<Rightarrow> jsstring \<Rightarrow> stored_file" where
  "stored part name =
     \<lparr>fieldname = fieldname part, originalname = originalname part,
      mimetype = mimetype part, content = content part, filename = name\<rparr>"

definition removeUploadedFiles :: "jsstring list \<Rightarrow> directory \<Rightarrow> directory" where
  "removeUploadedFiles names dir = (\<lambda>name. if name \<in> set names then None else dir name)"

fun upload :: "(nat \<Rightarrow> file_part \<Rightarrow> jsstring) \<Rightarrow> jsstring \<Rightarrow> nat \<Rightarrow> limits \<Rightarrow>
    nat \<Rightarrow> file_part list \<Rightarrow> directory \<Rightarrow> stored_file list \<Rightarrow>
    (upload_error + stored_file list) \<times> directory" where
  "upload name field maxCount lm k [] dir acc = (Inr acc, dir)"
| "upload name field maxCount lm k (part # parts) dir acc =
     (if files lm \<le> k then
        (Inl LIMIT_FILE_COUNT, removeUploadedFiles (map filename acc) dir)
      else if fieldname part \<noteq> field \<or> maxCount \<le> k then
        (Inl LIMIT_UNEXPECTED_FILE, removeUploadedFiles (map filename acc) dir)
      else
        (case imageFileFilter part of
           Some err \<Rightarrow> (Inl err, removeUploadedFiles (map filename acc) dir)
         | None \<Rightarrow>
             if fileSize lm < length (content part) then
               (Inl LIMIT_FILE_SIZE,
                removeUploadedFiles (map filename acc @ [name k part]) dir)
             else
               upload name field maxCount lm (Suc k) parts
                 (dir(name k part \<mapsto> content part))
                 (acc @ [stored part (name k part)])))"

text \<open>\<open>uploadGallery.array('images', 10)\<close>\<close>

definition uploadGallery :: "env \<Rightarrow> file_part list \<Rightarrow> directory \<Rightarrow>
    (upload_error + stored_file list) \<times> directory" where
  "uploadGallery e parts dir =
     upload (\<lambda>k. galleryStorage_filename (Date_now e k) (random_1E9 e k)) (js ''images'') 10
       \<lparr>fileSize = 5 * 1024 * 1024, files = 10\<rparr> 0 parts dir []"

text \<open>\<open>uploadHero.single('heroImage')\<close>; the handler reads the first stored file as \<open>req.file\<close>.\<close>

definition uploadHero :: "file_part list \<Rightarrow> directory \<Rightarrow>
    (upload_error + stored_file list) \<times> directory" where
  "uploadHero parts dir =
     upload (\<lambda>k. heroStorage_filename) (js ''heroImage'') 1
       \<lparr>fileSize = 10 * 1024 * 1024, files = 1\<rparr> 0 parts dir []"

text \<open>
  \<open>fs.unlink(path.join(dir, name))\<close> inside its own \<open>try\<close>: a failure is logged and ignored.
  This is exact for a name without \<open>/\<close>, which is every name that reaches the gallery
  handler's \<open>unlink\<close> and every name that the server itself stores. A hero record that was
  edited by hand can hold a name with \<open>/\<close> in it: \<open>path.join\<close> follows \<open>../\<close> out of the
  directory, and the file removed then is another file, which this definition does not
  follow. No property below rests on what \<open>unlink\<close> removes.
\<close>

definition unlink :: "env \<Rightarrow> directory \<Rightarrow> jsstring \<Rightarrow> directory" where
  "unlink e dir name = (if unlink_ok e then dir(name := None) else dir)"

subsection \<open>The gallery record\<close>

text \<open>\<open>GET /api/gallery\<close>\<close>

definition get_gallery :: "server_state \<Rightarrow> response" where
  "get_gallery s =
     (case GALLERY_FILE s of
        Some galleryData \<Rightarrow> Json 200 galleryData
      | None \<Rightarrow> error_json 500 ''Failed to read gallery'')"

text \<open>The entry that the upload handler makes of the \<open>k\<close>-th stored file.\<close>

definition image_entry :: "env \<Rightarrow> nat \<Rightarrow> stored_file \<Rightarrow> jsval" where
  "image_entry e k file = JObj [
     (js ''filename'', JStr (filename file)),
     (js ''originalName'', JStr (originalname file)),
     (js ''uploadedAt'', JStr (toISOString e k)),
     (js ''size'', JNum (of_nat (length (content file)))),
     (js ''mimetype'', JStr (mimetype file))]"

text \<open>
  The handler of \<open>POST /api/gallery/upload\<close>. Everything after the first check runs inside
  \<open>try\<close>: a record file that cannot be read and an \<open>images\<close> property that cannot be
  spread end in the \<open>catch\<close> block. Only an object can have an \<open>images\<close> property, so
  every other document ends there too.
\<close>

definition post_gallery_upload_handler ::
    "env \<Rightarrow> stored_file list \<Rightarrow> server_state \<Rightarrow> response \<times> server_state" where
  "post_gallery_upload_handler e req_files s =
     (if req_files = [] then (error_json 400 ''No files uploaded'', s)
      else
        (case GALLERY_FILE s of
           Some (JObj galleryData) \<Rightarrow>
             (let newImages = map (\<lambda>(k, file). image_entry e k file) (enumerate 0 req_files)
              in case spread (own_prop galleryData (js ''images'')) of
                   Some images \<Rightarrow>
                     (let (written, file) =
                            writeFile e (GALLERY_FILE s)
                              (JObj (assign galleryData (js ''images'') (JArr (images @ newImages))))
                      in (if written then
                            success_json (decimal (length newImages) @ js '' images uploaded successfully'')
                          else error_json 500 ''Failed to upload images'',
                          s\<lparr>GALLERY_FILE := file\<rparr>))
                 | None \<Rightarrow> (error_json 500 ''Failed to upload images'', s))
         | _ \<Rightarrow> (error_json 500 ''Failed to upload images'', s)))"

text \<open>\<open>POST /api/gallery/upload\<close>: \<open>validatePassword\<close>, the upload middleware, then the handler.\<close>

definition post_gallery_upload ::
    "config \<Rightarrow> env \<Rightarrow> body \<Rightarrow> file_part list \<Rightarrow> server_state \<Rightarrow> response \<times> server_state" where
  "post_gallery_upload cfg e b parts s =
     (case validatePassword cfg b of
        Some r \<Rightarrow> (r, s)
      | None \<Rightarrow>
          (case uploadGallery e parts (GALLERY_UPLOADS_DIR s) of
             (Inl err, dir) \<Rightarrow> (NextError err, s\<lparr>GALLERY_UPLOADS_DIR := dir\<rparr>)
           | (Inr req_files, dir) \<Rightarrow>
               post_gallery_upload_handler e req_files (s\<lparr>GALLERY_UPLOADS_DIR := dir\<rparr>)))"

text \<open>
  \<open>images.findIndex(img => img.filename === filename)\<close>, counting from \<open>i\<close>: \<open>- 1\<close> when no
  element matches, \<open>None\<close> for the \<open>TypeError\<close> at an element that is \<open>null\<close>.
\<close>

fun findIndex :: "jsval list \<Rightarrow> jsstring \<Rightarrow> int \<Rightarrow> int option" where
  "findIndex [] name i = Some (- 1)"
| "findIndex (img # imgs) name i =
     (case get_prop img (js ''filename'') of
        None \<Rightarrow> None
      | Some v \<Rightarrow> if v = JStr name then Some i else findIndex imgs name (i + 1))"

text \<open>\<open>images.splice(i, 1)\<close> for an index inside the array.\<close>

definition splice1 :: "jsval list \<Rightarrow> nat \<Rightarrow> jsval list" where
  "splice1 xs i = take i xs @ drop (Suc i) xs"

text \<open>
  The handler of \<open>DELETE /api/gallery/:filename\<close>, with the decoded \<open>:filename\<close> of the
  URL. Only an array has \<open>findIndex\<close>; any other \<open>images\<close> property, and any document
  that is not an object, ends in the \<open>catch\<close> block.
\<close>

definition delete_gallery_handler ::
    "env \<Rightarrow> jsstring \<Rightarrow> server_state \<Rightarrow> response \<times> server_state" where
  "delete_gallery_handler e name s =
     (if name = [] \<or> js_includes name (js ''..'') \<or> js_includes name (js ''/'') then
        (error_json 400 ''Invalid filename'', s)
      else
        (case GALLERY_FILE s of
           Some (JObj galleryData) \<Rightarrow>
             (case own_prop galleryData (js ''images'') of
                JArr images \<Rightarrow>
                  (case findIndex images name 0 of
                     None \<Rightarrow> (error_json 500 ''Failed to delete image'', s)
                   | Some imageIndex \<Rightarrow>
                       if imageIndex = - 1 then (error_json 404 ''Image not found'', s)
                       else
                         (let dir = unlink e (GALLERY_UPLOADS_DIR s) name;
                              (written, file) =
                                writeFile e (GALLERY_FILE s)
                                  (JObj (assign galleryData (js ''images'')
                                     (JArr (splice1 images (nat imageIndex)))))
                          in (if written then success_json (js ''Image deleted successfully'')
                              else error_json 500 ''Failed to delete image'',
                              s\<lparr>GALLERY_FILE := file, GALLERY_UPLOADS_DIR := dir\<rparr>)))
              | _ \<Rightarrow> (error_json 500 ''Failed to delete image'', s))
         | _ \<Rightarrow> (error_json 500 ''Failed to delete image'', s)))"

text \<open>\<open>DELETE /api/gallery/:filename\<close>: \<open>validatePassword\<close>, then the handler.\<close>

definition delete_gallery ::
    "config \<Rightarrow> env \<Rightarrow> body \<Rightarrow> jsstring \<Rightarrow> server_state \<Rightarrow> response \<times> server_state" where
  "delete_gallery cfg e b name s =
     (case validatePassword cfg b of
        Some r \<Rightarrow> (r, s)
      | None \<Rightarrow> delete_gallery_handler e name s)"

subsection \<open>The hero record\<close>

text \<open>\<open>GET /api/hero-background\<close>\<close>

definition get_hero :: "server_state \<Rightarrow> response" where
  "get_hero s =
     (case HERO_BG_FILE s of
        Some heroData \<Rightarrow> Json 200 heroData
      | None \<Rightarrow> error_json 500 ''Failed to read hero background'')"

text \<open>The record that the upload handler makes of the stored file.\<close>

definition hero_entry :: "env \<Rightarrow> stored_file \<Rightarrow> jsval" where
  "hero_entry e file = JObj [
     (js ''filename'', JStr (filename file)),
     (js ''originalName'', JStr (originalname file)),
     (js ''uploadedAt'', JStr (toISOString e 0)),
     (js ''size'', JNum (of_nat (length (content file)))),
     (js ''mimetype'', JStr (mimetype file))]"

text \<open>The handler of \<open>POST /api/hero-background/upload\<close>.\<close>

definition post_hero_upload_handler ::
    "env \<Rightarrow> stored_file list \<Rightarrow> server_state \<Rightarrow> response \<times> server_state" where
  "post_hero_upload_handler e req_files s =
     (case req_files of
        [] \<Rightarrow> (error_json 400 ''No file uploaded'', s)
      | req_file # _ \<Rightarrow>
          (let heroData = hero_entry e req_file;
               (written, file) = writeFile e (HERO_BG_FILE s) heroData
           in (if written then success_json (js ''Hero background uploaded successfully'')
               else error_json 500 ''Failed to upload hero background'',
               s\<lparr>HERO_BG_FILE := file\<rparr>)))"

text \<open>\<open>POST /api/hero-background/upload\<close>: \<open>validatePassword\<close>, the upload middleware, then the handler.\<close>

definition post_hero_upload ::
    "config \<Rightarrow> env \<Rightarrow> body \<Rightarrow> file_part list \<Rightarrow> server_state \<Rightarrow> response \<times> server_state" where
  "post_hero_upload cfg e b parts s =
     (case validatePassword cfg b of
        Some r \<Rightarrow> (r, s)
      | None \<Rightarrow>
          (case uploadHero parts (HERO_UPLOADS_DIR s) of
             (Inl err, dir) \<Rightarrow> (NextError err, s\<lparr>HERO_UPLOADS_DIR := dir\<rparr>)
           | (Inr req_files, dir) \<Rightarrow>
               post_hero_upload_handler e req_files (s\<lparr>HERO_UPLOADS_DIR := dir\<rparr>)))"

text \<open>\<open>{ filename: null, uploadedAt: null }\<close>\<close>

definition defaultHero :: jsval where
  "defaultHero = JObj [(js ''filename'', JNull), (js ''uploadedAt'', JNull)]"

text \<open>
  The handler of \<open>DELETE /api/hero-background\<close>. A stored file name that is truthy but not a
  string makes \<open>path.join\<close> throw inside the inner \<open>try\<close>, which is logged and ignored.
\<close>

definition delete_hero_handler :: "env \<Rightarrow> server_state \<Rightarrow> response \<times> server_state" where
  "delete_hero_handler e s =
     (case HERO_BG_FILE s of
        None \<Rightarrow> (error_json 500 ''Failed to delete hero background'', s)
      | Some heroData \<Rightarrow>
          (case get_prop heroData (js ''filename'') of
             None \<Rightarrow> (error_json 500 ''Failed to delete hero background'', s)
           | Some name \<Rightarrow>
               (let dir = (if truthy name then
                             (case name of
                                JStr n \<Rightarrow> unlink e (HERO_UPLOADS_DIR s) n
                              | _ \<Rightarrow> HERO_UPLOADS_DIR s)
                           else HERO_UPLOADS_DIR s);
                    (written, file) = writeFile e (HERO_BG_FILE s) defaultHero
                in (if written then success_json (js ''Hero background deleted successfully'')
                    else error_json 500 ''Failed to delete hero background'',
                    s\<lparr>HERO_BG_FILE := file, HERO_UPLOADS_DIR := dir\<rparr>))))"

text \<open>\<open>DELETE /api/hero-background\<close>: \<open>validatePassword\<close>, then the handler.\<close>

definition delete_hero :: "config \<Rightarrow> env \<Rightarrow> body \<Rightarrow> server_state \<Rightarrow> response \<times> server_state" where
  "delete_hero cfg e b s =
     (case validatePassword cfg b of
        Some r \<Rightarrow> (r, s)
      | None \<Rightarrow> delete_hero_handler e s)"

subsection \<open>Upload requests\<close>

text \<open>
  The body of a request to an upload route. The body parsers that the server installs before
  its routes are \<open>express.json\<close> and \<open>express.urlencoded\<close>, and no other: they read a JSON
  or urlencoded body into \<open>req.body\<close> and leave \<open>req.body\<close> the empty object for a body of
  any other type. The multipart parser of an upload route comes after \<open>validatePassword\<close> in
  the chain of the route, and passes a request that is not multipart on untouched. So a
  request is one of two:
  \<^item> \<open>Parsed b\<close>: a JSON or urlencoded body with the properties \<open>b\<close>; it has no file part;
  \<^item> \<open>Multipart form parts\<close>: a \<open>multipart/form-data\<close> body with the text fields \<open>form\<close>
    and the file parts \<open>parts\<close>; no property of it is in \<open>req.body\<close> when the chain of the
    route starts.
\<close>

datatype request_body =
    Parsed body
  | Multipart body "file_part list"

text \<open>\<open>req.body\<close> as \<open>validatePassword\<close> finds it.\<close>

fun req_body :: "request_body \<Rightarrow> body" where
  "req_body (Parsed b) = b"
| "req_body (Multipart form parts) =
     \<lparr>password = JUndefined, status = JUndefined, notice = JUndefined\<rparr>"

text \<open>The file parts that the multipart parser of the route finds.\<close>

fun req_parts :: "request_body \<Rightarrow> file_part list" where
  "req_parts (Parsed b) = []"
| "req_parts (Multipart form parts) = parts"

text \<open>A request to \<open>POST /api/gallery/upload\<close> and to \<open>POST /api/hero-background/upload\<close>.\<close>

definition gallery_upload_request ::
    "config \<Rightarrow> env \<Rightarrow> request_body \<Rightarrow> server_state \<Rightarrow> response \<times> server_state" where
  "gallery_upload_request cfg e rq s = post_gallery_upload cfg e (req_body rq) (req_parts rq) s"

definition hero_upload_request ::
    "config \<Rightarrow> env \<Rightarrow> request_body \<Rightarrow> server_state \<Rightarrow> response \<times> server_state" where
  "hero_upload_request cfg e rq s = post_hero_upload cfg e (req_body rq) (req_parts rq) s"

subsection \<open>Predicates of the properties\<close>

text \<open>A response with status 200.\<close>

definition is_success :: "response \<Rightarrow> bool" where
  "is_success r = (case r of Json code _ \<Rightarrow> code = 200 | NextError _ \<Rightarrow> False)"

text \<open>A status document whose \<open>status\<close> is a boolean and whose \<open>notice\<close> is a string.\<close>

definition status_record_ok :: "jsval \<Rightarrow> bool" where
  "status_record_ok d =
     (case (get_prop d (js ''status''), get_prop d (js ''notice'')) of
        (Some v, Some w) \<Rightarrow> typeof v = TBoolean \<and> typeof w = TString
      | _ \<Rightarrow> False)"

text \<open>The same of the status file, which holds no record when it cannot be read.\<close>

definition status_file_ok :: "jsval option \<Rightarrow> bool" where
  "status_file_ok f = (case f of None \<Rightarrow> True | Some d \<Rightarrow> status_record_ok d)"

subsection \<open>Concrete requests and states\<close>

text \<open>The server without \<open>ADMIN_PASSWORD\<close> in its environment, and a request on a healthy disk.\<close>

definition example_config :: config where
  "example_config = \<lparr>env_ADMIN_PASSWORD = None\<rparr>"

definition example_env :: env where
  "example_env =
     \<lparr>toISOString = (\<lambda>k. js ''2024-05-05T08:00:00.000Z''),
      Date_now = (\<lambda>k. 1714896000000),
      random_1E9 = (\<lambda>k. 123456789),
      write_result = WriteOk,
      unlink_ok = True\<rparr>"

definition admin_body :: body where
  "admin_body =
     \<lparr>password = JStr (js ''noblesrhyl1121''), status = JBool True,
      notice = JStr (js ''Open from 7am'')\<rparr>"

text \<open>The state that \<open>initializeDataFiles\<close> leaves on a first start.\<close>

definition fresh_state :: server_state where
  "fresh_state =
     \<lparr>DATA_FILE = Some (JObj [(js ''status'', JBool False), (js ''notice'', JStr []),
                             (js ''lastUpdated'', JStr (js ''2024-05-01T06:00:00.000Z''))]),
      GALLERY_FILE = Some (JObj [(js ''images'', JArr [])]),
      HERO_BG_FILE = Some defaultHero,
      GALLERY_UPLOADS_DIR = Map.empty,
      HERO_UPLOADS_DIR = Map.empty\<rparr>"

definition stall_jpg :: file_part where
  "stall_jpg = \<lparr>fieldname = js ''images'', originalname = js ''stall.jpg'',
                 mimetype = js ''image/jpeg'', content = [0xFF, 0xD8, 0xFF]\<rparr>"

definition leaflet_pdf :: file_part where
  "leaflet_pdf = \<lparr>fieldname = js ''images'', originalname = js ''leaflet.pdf'',
                   mimetype = js ''application/pdf'', content = [0x25, 0x50, 0x44, 0x46]\<rparr>"

definition banner_jpg :: file_part where
  "banner_jpg = \<lparr>fieldname = js ''heroImage'', originalname = js ''banner.jpg'',
                  mimetype = js ''image/jpeg'', content = [0xFF, 0xD8, 0xFF]\<rparr>"

definition banner_png :: file_part where
  "banner_png = \<lparr>fieldname = js ''heroImage'', originalname = js ''banner.png'',
                  mimetype = js ''image/png'', content = [0x89, 0x50, 0x4E, 0x47]\<rparr>"

definition stall_name :: jsstring where
  "stall_name = js ''gallery-1714896000000-123456789.jpg''"

text \<open>
  A state whose gallery record holds one entry, for \<open>stall_jpg\<close> stored as \<open>stall_name\<close>, and
  a state whose hero record names a stored JPEG.
\<close>

definition gallery_state :: server_state where
  "gallery_state =
     fresh_state\<lparr>
       GALLERY_FILE := Some (JObj [(js ''images'',
         JArr [image_entry example_env 0 (stored stall_jpg stall_name)])]),
       GALLERY_UPLOADS_DIR := [stall_name \<mapsto> content stall_jpg]\<rparr>"

definition hero_state :: server_state where
  "hero_state =
     fresh_state\<lparr>
       HERO_BG_FILE := Some (hero_entry example_env (stored banner_jpg (js ''hero-background.jpg''))),
       HERO_UPLOADS_DIR := [js ''hero-background.jpg'' \<mapsto> content banner_jpg]\<rparr>"

text \<open>A notice of 501 code units.\<close>

definition long_notice :: jsstring where
  "long_notice = replicate 501 0x78"

section \<open>Properties\<close>

subsection \<open>Basic facts\<close>

lemma ADMIN_PASSWORD_nonempty: "ADMIN_PASSWORD cfg \<noteq> []"
  by (simp add: ADMIN_PASSWORD_def js_def split: option.split)

lemma validatePassword_None_iff:
  "validatePassword cfg b = None \<longleftrightarrow> password b = JStr (ADMIN_PASSWORD cfg)"
  by (auto simp: validatePassword_def ADMIN_PASSWORD_nonempty)

lemma validatePassword_accept:
  "password b = JStr (ADMIN_PASSWORD cfg) \<Longrightarrow> validatePassword cfg b = None"
  by (simp add: validatePassword_None_iff)

lemma validatePassword_reject:
  "password b \<noteq> JStr (ADMIN_PASSWORD cfg) \<Longrightarrow>
   validatePassword cfg b = Some (error_json 401 ''Invalid password'')"
  by (simp add: validatePassword_def)

lemma is_success_simps [simp]:
  "is_success (success_json m)" "is_success (error_json code msg) \<longleftrightarrow> code = 200"
  "\<not> is_success (NextError err)"
  by (simp_all add: is_success_def success_json_def error_json_def)

lemma state_update_same [simp]:
  "s\<lparr>GALLERY_UPLOADS_DIR := GALLERY_UPLOADS_DIR s\<rparr> = s"
  "s\<lparr>HERO_UPLOADS_DIR := HERO_UPLOADS_DIR s\<rparr> = s"
  by simp_all

lemma removeUploadedFiles_Nil [simp]: "removeUploadedFiles [] dir = dir"
  by (simp add: removeUploadedFiles_def)

lemma example_password: "password admin_body = JStr (ADMIN_PASSWORD example_config)"
  by (simp add: admin_body_def ADMIN_PASSWORD_def example_config_def)

lemma example_validatePassword: "validatePassword example_config admin_body = None"
  by (simp add: validatePassword_accept example_password)

subsection \<open>The status record\<close>

text \<open>
  Claim C1. With the correct password, a boolean status and a notice of at most 500 code
  units, and a write that goes through, \<open>POST /api/status\<close> succeeds and the
  \<open>GET /api/status\<close> that follows returns the submitted status and notice with the timestamp
  that the handler took for the write.
\<close>

theorem set_status_then_get_status:
  assumes "password b = JStr (ADMIN_PASSWORD cfg)"
      and "status b = JBool st" and "notice b = JStr n" and "length n \<le> 500"
      and "write_result e = WriteOk"
  shows "fst (post_status cfg e b s) = success_json (js ''Status updated successfully'') \<and>
         get_status (snd (post_status cfg e b s)) =
           Json 200 (JObj [(js ''status'', JBool st), (js ''notice'', JStr n),
                           (js ''lastUpdated'', JStr (toISOString e 0))])"
proof -
  have pw: "validatePassword cfg b = None"
    using assms(1) by (simp add: validatePassword_None_iff)
  have vd: "validateStatusData b = None"
    using assms(2-4) by (simp add: validateStatusData_def)
  show ?thesis
    using assms(2,3,5)
    by (simp add: post_status_def pw vd post_status_handler_def writeFile_def js_or_def
        get_status_def)
qed

text \<open>Claim C1 at a concrete request: the status is set to open with the notice \<open>Open from 7am\<close>.\<close>

theorem set_status_then_get_status_witness:
  "fst (post_status example_config example_env admin_body fresh_state) =
     success_json (js ''Status updated successfully'') \<and>
   get_status (snd (post_status example_config example_env admin_body fresh_state)) =
     Json 200 (JObj [(js ''status'', JBool True), (js ''notice'', JStr (js ''Open from 7am'')),
                     (js ''lastUpdated'', JStr (toISOString example_env 0))])"
proof -
  have "status admin_body = JBool True" "notice admin_body = JStr (js ''Open from 7am'')"
    "length (js ''Open from 7am'') \<le> 500" "write_result example_env = WriteOk"
    by (simp_all add: admin_body_def example_env_def js_def)
  from set_status_then_get_status [OF example_password this] show ?thesis .
qed

text \<open>
  Claim C4. The password check passes for the configured secret only, and a
  \<open>POST /api/status\<close> with any other password value, a missing one included, is answered
  with 401 and leaves the state as it was.
\<close>

theorem set_status_wrong_password:
  "(validatePassword cfg b = None \<longleftrightarrow> password b = JStr (ADMIN_PASSWORD cfg)) \<and>
   (password b \<noteq> JStr (ADMIN_PASSWORD cfg) \<longrightarrow>
      post_status cfg e b s = (error_json 401 ''Invalid password'', s))"
  by (simp add: validatePassword_None_iff post_status_def validatePassword_reject)

text \<open>Claim C4 at two concrete requests: one without a password, one with a wrong password.\<close>

theorem set_status_wrong_password_witness:
  "post_status example_config example_env (admin_body\<lparr>password := JUndefined\<rparr>) fresh_state =
     (error_json 401 ''Invalid password'', fresh_state) \<and>
   post_status example_config example_env (admin_body\<lparr>password := JStr (js ''letmein'')\<rparr>) fresh_state =
     (error_json 401 ''Invalid password'', fresh_state)"
proof -
  have "password (admin_body\<lparr>password := JUndefined\<rparr>) \<noteq> JStr (ADMIN_PASSWORD example_config)"
    by simp
  moreover have "password (admin_body\<lparr>password := JStr (js ''letmein'')\<rparr>) \<noteq>
      JStr (ADMIN_PASSWORD example_config)"
    by (simp add: ADMIN_PASSWORD_def example_config_def js_def)
  ultimately show ?thesis
    using set_status_wrong_password
        [of example_config "admin_body\<lparr>password := JUndefined\<rparr>" example_env fresh_state]
      set_status_wrong_password
        [of example_config "admin_body\<lparr>password := JStr (js ''letmein'')\<rparr>" example_env fresh_state]
    by simp
qed

text \<open>
  Claim C5. With the correct password and a string notice of more than 500 code units,
  \<open>POST /api/status\<close> is answered with 400 by the validation middleware and leaves the state
  as it was. The status is checked before the notice, so the message is the one about the
  status when that is not a boolean either.
\<close>

theorem set_status_long_notice:
  assumes "password b = JStr (ADMIN_PASSWORD cfg)"
      and "notice b = JStr n" and "length n > 500"
  shows "post_status cfg e b s =
           (if typeof (status b) \<noteq> TBoolean
            then error_json 400 ''Status must be a boolean value''
            else error_json 400 ''Notice must be less than 500 characters'', s)"
proof -
  have pw: "validatePassword cfg b = None"
    using assms(1) by (simp add: validatePassword_None_iff)
  have "validateStatusData b =
          Some (if typeof (status b) \<noteq> TBoolean
                then error_json 400 ''Status must be a boolean value''
                else error_json 400 ''Notice must be less than 500 characters'')"
    using assms(2,3) by (auto simp add: validateStatusData_def)
  then show ?thesis
    by (simp add: post_status_def pw)
qed

text \<open>Claim C5 at a concrete request: a notice of 501 code units.\<close>

theorem set_status_long_notice_witness:
  "length long_notice = 501 \<and>
   post_status example_config example_env (admin_body\<lparr>notice := JStr long_notice\<rparr>) fresh_state =
     (error_json 400 ''Notice must be less than 500 characters'', fresh_state)"
proof -
  have 1: "password (admin_body\<lparr>notice := JStr long_notice\<rparr>) = JStr (ADMIN_PASSWORD example_config)"
    using example_password by simp
  have 2: "notice (admin_body\<lparr>notice := JStr long_notice\<rparr>) = JStr long_notice"
    by simp
  have 3: "length long_notice > 500" "length long_notice = 501"
    by (simp_all add: long_notice_def)
  have 4: "typeof (status (admin_body\<lparr>notice := JStr long_notice\<rparr>)) = TBoolean"
    by (simp add: admin_body_def)
  from set_status_long_notice [OF 1 2 3(1), of example_env fresh_state] 3(2) 4 show ?thesis
    by simp
qed

lemma validateStatusData_falsy_notice:
  "status b = JBool st \<Longrightarrow> \<not> truthy (notice b) \<Longrightarrow> validateStatusData b = None"
  by (simp add: validateStatusData_def)

lemma post_status_handler_cases:
  "validatePassword cfg b = None \<and> validateStatusData b = None \<and>
     post_status cfg e b s = post_status_handler e b s \<or>
   snd (post_status cfg e b s) = s \<and> \<not> is_success (fst (post_status cfg e b s))"
  by (auto simp: post_status_def validatePassword_def validateStatusData_def
      split: option.splits)

lemma stored_status_ok:
  assumes "validateStatusData b = None"
  shows "status_record_ok (JObj [(js ''status'', JBool (truthy (status b))),
            (js ''notice'', js_or (notice b) (JStr [])),
            (js ''lastUpdated'', JStr t)])"
proof -
  have "\<not> truthy (notice b) \<or> typeof (notice b) = TString"
    using assms by (auto simp: validateStatusData_def split: if_splits)
  then have "typeof (js_or (notice b) (JStr [])) = TString"
    by (auto simp: js_or_def)
  then show ?thesis
    by (simp add: status_record_ok_def own_prop_def js_def)
qed

lemma post_status_handler_file:
  "validateStatusData b = None \<Longrightarrow> status_file_ok (DATA_FILE s) \<Longrightarrow>
   status_file_ok (DATA_FILE (snd (post_status_handler e b s)))"
  using stored_status_ok [of b "toISOString e 0"]
  by (cases "write_result e")
     (simp_all add: post_status_handler_def writeFile_def status_file_ok_def)

lemma post_status_handler_success:
  "validateStatusData b = None \<Longrightarrow> is_success (fst (post_status_handler e b s)) \<Longrightarrow>
   \<exists>d. DATA_FILE (snd (post_status_handler e b s)) = Some d \<and> status_record_ok d"
  using stored_status_ok [of b "toISOString e 0"]
  by (cases "write_result e")
     (simp_all add: post_status_handler_def writeFile_def)

text \<open>
  Claim C9. With the correct password, a boolean status and a falsy notice (\<open>null\<close>,
  \<open>undefined\<close>, \<open>0\<close>, \<open>false\<close> or the empty string), validation passes and, when the write
  goes through, the stored notice is the empty string. Every record that a successful
  \<open>POST /api/status\<close> stores has a boolean status and a string notice, and no request makes a
  status file that has this form lose it.
\<close>

theorem set_status_falsy_notice:
  "(password b = JStr (ADMIN_PASSWORD cfg) \<and> status b = JBool st \<and> \<not> truthy (notice b) \<and>
    write_result e = WriteOk \<longrightarrow>
      post_status cfg e b s =
        (success_json (js ''Status updated successfully''),
         s\<lparr>DATA_FILE := Some (JObj [(js ''status'', JBool st), (js ''notice'', JStr []),
                                    (js ''lastUpdated'', JStr (toISOString e 0))])\<rparr>)) \<and>
   (is_success (fst (post_status cfg e b s)) \<longrightarrow>
      (\<exists>d. DATA_FILE (snd (post_status cfg e b s)) = Some d \<and> status_record_ok d)) \<and>
   (status_file_ok (DATA_FILE s) \<longrightarrow> status_file_ok (DATA_FILE (snd (post_status cfg e b s))))"
proof (intro conjI impI)
  assume a: "password b = JStr (ADMIN_PASSWORD cfg) \<and> status b = JBool st \<and>
    \<not> truthy (notice b) \<and> write_result e = WriteOk"
  then have "validatePassword cfg b = None" "validateStatusData b = None"
    by (simp_all add: validatePassword_accept validateStatusData_falsy_notice)
  with a show "post_status cfg e b s =
        (success_json (js ''Status updated successfully''),
         s\<lparr>DATA_FILE := Some (JObj [(js ''status'', JBool st), (js ''notice'', JStr []),
                                    (js ''lastUpdated'', JStr (toISOString e 0))])\<rparr>)"
    by (simp add: post_status_def post_status_handler_def writeFile_def js_or_def)
next
  assume "is_success (fst (post_status cfg e b s))"
  then show "\<exists>d. DATA_FILE (snd (post_status cfg e b s)) = Some d \<and> status_record_ok d"
    using post_status_handler_cases [of cfg b e s] post_status_handler_success [of b e s]
    by auto
next
  assume "status_file_ok (DATA_FILE s)"
  then show "status_file_ok (DATA_FILE (snd (post_status cfg e b s)))"
    using post_status_handler_cases [of cfg b e s] post_status_handler_file [of b s e]
    by auto
qed

text \<open>Claim C9 at a concrete request: the notice is \<open>null\<close>.\<close>

theorem set_status_falsy_notice_witness:
  "post_status example_config example_env (admin_body\<lparr>notice := JNull\<rparr>) fresh_state =
     (success_json (js ''Status updated successfully''),
      fresh_state\<lparr>DATA_FILE := Some (JObj [(js ''status'', JBool True), (js ''notice'', JStr []),
                                    (js ''lastUpdated'', JStr (toISOString example_env 0))])\<rparr>) \<and>
   (\<exists>d. DATA_FILE (snd (post_status example_config example_env (admin_body\<lparr>notice := JNull\<rparr>)
           fresh_state)) = Some d \<and> status_record_ok d) \<and>
   status_file_ok (DATA_FILE (snd (post_status example_config example_env
     (admin_body\<lparr>notice := JNull\<rparr>) fresh_state)))"
proof -
  let ?b = "admin_body\<lparr>notice := JNull\<rparr>"
  have 1: "password ?b = JStr (ADMIN_PASSWORD example_config) \<and> status ?b = JBool True \<and>
           \<not> truthy (notice ?b) \<and> write_result example_env = WriteOk"
    using example_password by (simp add: admin_body_def example_env_def)
  have 2: "status_file_ok (DATA_FILE fresh_state)"
    by (simp add: fresh_state_def status_file_ok_def status_record_ok_def own_prop_def js_def)
  note t = set_status_falsy_notice [of ?b example_config True example_env fresh_state]
  from t 1 have 3: "post_status example_config example_env ?b fresh_state =
     (success_json (js ''Status updated successfully''),
      fresh_state\<lparr>DATA_FILE := Some (JObj [(js ''status'', JBool True), (js ''notice'', JStr []),
                                    (js ''lastUpdated'', JStr (toISOString example_env 0))])\<rparr>)"
    by blast
  then have "is_success (fst (post_status example_config example_env ?b fresh_state))"
    by simp
  with t 2 3 show ?thesis
    by blast
qed

subsection \<open>Deleting a gallery image\<close>

text \<open>
  Claim C8. A \<open>DELETE /api/gallery/:filename\<close> whose file name contains \<open>..\<close> or \<open>/\<close> is
  answered with a client error, 400 after the password check has passed and 401 when it has
  not, and leaves the state as it was. The answer is the same in every state: neither the
  gallery record nor the directory is looked at.
\<close>

theorem delete_gallery_path_traversal:
  assumes "js_includes name (js ''..'') \<or> js_includes name (js ''/'')"
  shows "delete_gallery cfg e b name s =
           (if password b = JStr (ADMIN_PASSWORD cfg) then error_json 400 ''Invalid filename''
            else error_json 401 ''Invalid password'', s)"
  using assms
  by (auto simp: delete_gallery_def delete_gallery_handler_def validatePassword_accept
      validatePassword_reject)

text \<open>Claim C8 at two concrete file names, \<open>../status.json\<close> and \<open>a/b.jpg\<close>.\<close>

theorem delete_gallery_path_traversal_witness:
  "delete_gallery example_config example_env admin_body (js ''../status.json'') gallery_state =
     (error_json 400 ''Invalid filename'', gallery_state) \<and>
   delete_gallery example_config example_env admin_body (js ''a/b.jpg'') gallery_state =
     (error_json 400 ''Invalid filename'', gallery_state)"
proof -
  have 1: "js_includes (js ''../status.json'') (js ''..'') \<or>
           js_includes (js ''../status.json'') (js ''/'')"
    by code_simp
  have 2: "js_includes (js ''a/b.jpg'') (js ''..'') \<or> js_includes (js ''a/b.jpg'') (js ''/'')"
    by code_simp
  from delete_gallery_path_traversal [OF 1, of example_config example_env admin_body gallery_state]
    delete_gallery_path_traversal [OF 2, of example_config example_env admin_body gallery_state]
    example_password
  show ?thesis by simp
qed

lemma findIndex_absent:
  "\<forall>img\<in>set images. \<exists>v. get_prop img (js ''filename'') = Some v \<and> v \<noteq> JStr name \<Longrightarrow>
   findIndex images name i = Some (- 1)"
  by (induction images arbitrary: i) auto

text \<open>
  Claim C7. With the correct password and a file name that is not empty and contains neither
  \<open>..\<close> nor \<open>/\<close>, a \<open>DELETE /api/gallery/:filename\<close> on a gallery record none of whose entries
  has this file name is answered with 404 and leaves the state as it was.
\<close>

theorem delete_gallery_unknown_filename:
  assumes "password b = JStr (ADMIN_PASSWORD cfg)"
      and "name \<noteq> []" and "\<not> js_includes name (js ''..'')" and "\<not> js_includes name (js ''/'')"
      and "GALLERY_FILE s = Some (JObj galleryData)"
      and "own_prop galleryData (js ''images'') = JArr images"
      and "\<forall>img\<in>set images. \<exists>v. get_prop img (js ''filename'') = Some v \<and> v \<noteq> JStr name"
  shows "delete_gallery cfg e b name s = (error_json 404 ''Image not found'', s)"
  using assms(2-6) findIndex_absent [OF assms(7), of 0]
  by (simp add: delete_gallery_def validatePassword_accept [OF assms(1)]
      delete_gallery_handler_def)

text \<open>Claim C7 at a concrete request: a gallery of one image, and another file name.\<close>

theorem delete_gallery_unknown_filename_witness:
  "delete_gallery example_config example_env admin_body (js ''gallery-1-2.png'') gallery_state =
     (error_json 404 ''Image not found'', gallery_state)"
proof -
  have 1: "js ''gallery-1-2.png'' \<noteq> []" "\<not> js_includes (js ''gallery-1-2.png'') (js ''..'')"
    "\<not> js_includes (js ''gallery-1-2.png'') (js ''/'')"
    by code_simp+
  have 2: "GALLERY_FILE gallery_state = Some (JObj [(js ''images'',
         JArr [image_entry example_env 0 (stored stall_jpg stall_name)])])"
    by (simp add: gallery_state_def)
  have 3: "own_prop [(js ''images'', JArr [image_entry example_env 0 (stored stall_jpg stall_name)])]
             (js ''images'') = JArr [image_entry example_env 0 (stored stall_jpg stall_name)]"
    by (simp add: own_prop_def)
  have "stall_name \<noteq> js ''gallery-1-2.png''"
    by code_simp
  then have 4: "\<forall>img\<in>set [image_entry example_env 0 (stored stall_jpg stall_name)].
           \<exists>v. get_prop img (js ''filename'') = Some v \<and> v \<noteq> JStr (js ''gallery-1-2.png'')"
    by (simp add: image_entry_def own_prop_def stored_def)
  from delete_gallery_unknown_filename [OF example_password 1 2 3 4] show ?thesis .
qed

subsection \<open>The file filter\<close>

text \<open>
  Claim C6. A \<open>POST /api/gallery/upload\<close> with one file part whose declared MIME type is not
  an allowed one is rejected and leaves the state as it was: no file is written and the
  gallery record is not touched. It is rejected by the password check, or else by the upload
  middleware, which hands its error to \<open>next\<close> without reaching the handler.
\<close>

theorem gallery_upload_disallowed_mime:
  assumes "mimetype part \<notin> set allowedMimes"
  shows "snd (post_gallery_upload cfg e b [part] s) = s \<and>
         fst (post_gallery_upload cfg e b [part] s) =
           (if password b \<noteq> JStr (ADMIN_PASSWORD cfg) then error_json 401 ''Invalid password''
            else if fieldname part \<noteq> js ''images'' then NextError LIMIT_UNEXPECTED_FILE
            else NextError (FilterError (js ''Invalid file type. Only images are allowed.'')))"
proof (cases "password b = JStr (ADMIN_PASSWORD cfg)")
  case True
  have "uploadGallery e [part] (GALLERY_UPLOADS_DIR s) =
          (Inl (if fieldname part \<noteq> js ''images'' then LIMIT_UNEXPECTED_FILE
                else FilterError (js ''Invalid file type. Only images are allowed.'')),
           GALLERY_UPLOADS_DIR s)"
    using assms by (simp add: uploadGallery_def imageFileFilter_def)
  then show ?thesis
    using True by (simp add: post_gallery_upload_def validatePassword_accept)
next
  case False
  then show ?thesis
    by (simp add: post_gallery_upload_def validatePassword_reject)
qed

text \<open>Claim C6 at a concrete request: a PDF file sent with the correct password.\<close>

theorem gallery_upload_disallowed_mime_witness:
  "post_gallery_upload example_config example_env admin_body [leaflet_pdf] fresh_state =
     (NextError (FilterError (js ''Invalid file type. Only images are allowed.'')), fresh_state)"
proof -
  have 1: "mimetype leaflet_pdf \<notin> set allowedMimes"
    by code_simp
  have 2: "fieldname leaflet_pdf = js ''images''"
    by (simp add: leaflet_pdf_def)
  from gallery_upload_disallowed_mime [OF 1, of example_config example_env admin_body fresh_state]
    2 example_password
  show ?thesis
    by (simp add: prod_eq_iff)
qed

subsection \<open>Deleting the hero background\<close>

lemma delete_hero_handler_ok:
  assumes "write_result e = WriteOk" and "HERO_BG_FILE s = Some heroData"
      and "get_prop heroData (js ''filename'') = Some name"
  shows "delete_hero_handler e s =
           (success_json (js ''Hero background deleted successfully''),
            s\<lparr>HERO_BG_FILE := Some defaultHero,
              HERO_UPLOADS_DIR :=
                (if truthy name then
                   (case name of JStr n \<Rightarrow> unlink e (HERO_UPLOADS_DIR s) n
                    | _ \<Rightarrow> HERO_UPLOADS_DIR s)
                 else HERO_UPLOADS_DIR s)\<rparr>)"
  using assms by (simp add: delete_hero_handler_def writeFile_def)

lemma defaultHero_filename: "get_prop defaultHero (js ''filename'') = Some JNull"
  by (simp add: defaultHero_def own_prop_def)

text \<open>
  Claim C10, as the code has it. With the correct password, \<open>DELETE /api/hero-background\<close>
  succeeds and leaves the hero record equal to the empty default from every state whose hero
  record file can be read and holds a document other than \<open>null\<close>, when the write goes
  through; neither a stored file name that is \<open>null\<close> nor a file that is gone from the disk
  makes it fail. A second run succeeds too and changes nothing.
\<close>

theorem delete_hero_resets_record:
  assumes "password b = JStr (ADMIN_PASSWORD cfg)"
      and "write_result e = WriteOk" and "write_result e' = WriteOk"
      and "HERO_BG_FILE s = Some heroData" and "heroData \<noteq> JNull" and "heroData \<noteq> JUndefined"
  shows "fst (delete_hero cfg e b s) = success_json (js ''Hero background deleted successfully'') \<and>
         HERO_BG_FILE (snd (delete_hero cfg e b s)) = Some defaultHero \<and>
         delete_hero cfg e' b (snd (delete_hero cfg e b s)) =
           (success_json (js ''Hero background deleted successfully''), snd (delete_hero cfg e b s))"
proof -
  obtain name where name: "get_prop heroData (js ''filename'') = Some name"
    using assms(5,6) by (cases heroData) simp_all
  let ?s' = "snd (delete_hero cfg e b s)"
  have 1: "delete_hero cfg e b s = delete_hero_handler e s"
    by (simp add: delete_hero_def validatePassword_accept [OF assms(1)])
  have 2: "fst (delete_hero cfg e b s) = success_json (js ''Hero background deleted successfully'')"
    and 3: "HERO_BG_FILE ?s' = Some defaultHero"
    by (simp_all add: 1 delete_hero_handler_ok [OF assms(2,4) name])
  have "delete_hero cfg e' b ?s' = delete_hero_handler e' ?s'"
    by (simp add: delete_hero_def validatePassword_accept [OF assms(1)])
  also have "\<dots> = (success_json (js ''Hero background deleted successfully''), ?s')"
    using 3 by (simp add: delete_hero_handler_ok [OF assms(3) 3 defaultHero_filename])
  finally show ?thesis
    using 2 3 by simp
qed

text \<open>Claim C10, as the code has it, at a concrete state: a hero image is stored, and is deleted twice.\<close>

theorem delete_hero_resets_record_witness:
  "fst (delete_hero example_config example_env admin_body hero_state) =
     success_json (js ''Hero background deleted successfully'') \<and>
   HERO_BG_FILE (snd (delete_hero example_config example_env admin_body hero_state)) =
     Some defaultHero \<and>
   delete_hero example_config example_env admin_body
     (snd (delete_hero example_config example_env admin_body hero_state)) =
     (success_json (js ''Hero background deleted successfully''),
      snd (delete_hero example_config example_env admin_body hero_state))"
proof -
  have 1: "write_result example_env = WriteOk"
    by (simp add: example_env_def)
  have 2: "HERO_BG_FILE hero_state =
             Some (hero_entry example_env (stored banner_jpg (js ''hero-background.jpg'')))"
    by (simp add: hero_state_def)
  have 3: "hero_entry example_env (stored banner_jpg (js ''hero-background.jpg'')) \<noteq> JNull"
    "hero_entry example_env (stored banner_jpg (js ''hero-background.jpg'')) \<noteq> JUndefined"
    by (simp_all add: hero_entry_def)
  from delete_hero_resets_record [OF example_password 1 1 2 3] show ?thesis .
qed

text \<open>
  Claim C10 as stated fails in a state whose hero record file is missing or does not parse:
  with the correct password and a healthy disk the request is answered with 500, and the
  hero record is not the empty default afterwards.
\<close>

theorem delete_hero_unreadable_record:
  "fst (delete_hero example_config example_env admin_body (fresh_state\<lparr>HERO_BG_FILE := None\<rparr>)) =
     error_json 500 ''Failed to delete hero background'' \<and>
   HERO_BG_FILE (snd (delete_hero example_config example_env admin_body
     (fresh_state\<lparr>HERO_BG_FILE := None\<rparr>))) \<noteq> Some defaultHero"
  by (simp add: delete_hero_def example_validatePassword delete_hero_handler_def)

subsection \<open>No upload request succeeds\<close>

lemma validatePassword_Multipart:
  "validatePassword cfg (req_body (Multipart form parts)) =
     Some (error_json 401 ''Invalid password'')"
  by (simp add: validatePassword_def)

lemma uploadGallery_Nil: "uploadGallery e [] dir = (Inr [], dir)"
  by (simp add: uploadGallery_def)

lemma uploadHero_Nil: "uploadHero [] dir = (Inr [], dir)"
  by (simp add: uploadHero_def)

text \<open>
  Claim C3. The code does not do what the claim says of the upload of a valid gallery image:
  no request to \<open>POST /api/gallery/upload\<close> succeeds. A multipart request is answered with
  401 by \<open>validatePassword\<close>, whatever password field it carries, since the check runs before
  the multipart parser; a request with a parsed body has no file and is answered with 400,
  or with 401 when its password is wrong. The state is left as it was: no entry is appended
  and no file is written.
\<close>

theorem gallery_upload_request_refused:
  "snd (gallery_upload_request cfg e rq s) = s \<and>
   \<not> is_success (fst (gallery_upload_request cfg e rq s)) \<and>
   fst (gallery_upload_request cfg e rq s) =
     (case rq of
        Multipart form parts \<Rightarrow> error_json 401 ''Invalid password''
      | Parsed b \<Rightarrow>
          if password b = JStr (ADMIN_PASSWORD cfg) then error_json 400 ''No files uploaded''
          else error_json 401 ''Invalid password'')"
proof (cases rq)
  case (Parsed b)
  show ?thesis
  proof (cases "password b = JStr (ADMIN_PASSWORD cfg)")
    case True
    then show ?thesis
      by (simp add: Parsed gallery_upload_request_def post_gallery_upload_def
          validatePassword_accept uploadGallery_Nil post_gallery_upload_handler_def)
  next
    case False
    then show ?thesis
      by (simp add: Parsed gallery_upload_request_def post_gallery_upload_def
          validatePassword_reject)
  qed
next
  case (Multipart form parts)
  show ?thesis
    by (simp add: Multipart gallery_upload_request_def post_gallery_upload_def
        validatePassword_Multipart del: req_body.simps)
qed

text \<open>
  Claim C3 at a concrete request: a multipart upload of one valid JPEG with the correct
  password in its \<open>password\<close> field, to the fresh server, is answered with 401; the gallery
  record still has no entry and the gallery directory no file.
\<close>

theorem gallery_upload_request_refused_witness:
  "gallery_upload_request example_config example_env (Multipart admin_body [stall_jpg]) fresh_state =
     (error_json 401 ''Invalid password'', fresh_state) \<and>
   password admin_body = JStr (ADMIN_PASSWORD example_config) \<and>
   imageFileFilter stall_jpg = None \<and>
   get_gallery fresh_state = Json 200 (JObj [(js ''images'', JArr [])]) \<and>
   dom (GALLERY_UPLOADS_DIR fresh_state) = {}"
proof -
  have "imageFileFilter stall_jpg = None"
    by code_simp
  moreover have "get_gallery fresh_state = Json 200 (JObj [(js ''images'', JArr [])])"
    "dom (GALLERY_UPLOADS_DIR fresh_state) = {}"
    by (simp_all add: get_gallery_def fresh_state_def)
  ultimately show ?thesis
    using gallery_upload_request_refused
        [of example_config example_env "Multipart admin_body [stall_jpg]" fresh_state]
      example_password
    by (simp add: prod_eq_iff)
qed

text \<open>
  Claim C2. The code does not do what the claim says of hero uploads: no request to
  \<open>POST /api/hero-background/upload\<close> succeeds, for the same reason as for the gallery, the
  password check that runs before the multipart parser. The state is left as it was: the
  hero record is never the entry of an upload and no hero file is written.
\<close>

theorem hero_upload_request_refused:
  "snd (hero_upload_request cfg e rq s) = s \<and>
   \<not> is_success (fst (hero_upload_request cfg e rq s)) \<and>
   fst (hero_upload_request cfg e rq s) =
     (case rq of
        Multipart form parts \<Rightarrow> error_json 401 ''Invalid password''
      | Parsed b \<Rightarrow>
          if password b = JStr (ADMIN_PASSWORD cfg) then error_json 400 ''No file uploaded''
          else error_json 401 ''Invalid password'')"
proof (cases rq)
  case (Parsed b)
  show ?thesis
  proof (cases "password b = JStr (ADMIN_PASSWORD cfg)")
    case True
    then show ?thesis
      by (simp add: Parsed hero_upload_request_def post_hero_upload_def
          validatePassword_accept uploadHero_Nil post_hero_upload_handler_def)
  next
    case False
    then show ?thesis
      by (simp add: Parsed hero_upload_request_def post_hero_upload_def
          validatePassword_reject)
  qed
next
  case (Multipart form parts)
  show ?thesis
    by (simp add: Multipart hero_upload_request_def post_hero_upload_def
        validatePassword_Multipart del: req_body.simps)
qed

text \<open>
  Claim C2 at two concrete requests: a multipart upload of a valid JPEG and then of a valid
  PNG, each with the correct password in its \<open>password\<close> field, to the fresh server. Both are
  answered with 401; the hero record is still the empty default and the hero directory holds
  no file.
\<close>

theorem hero_upload_request_refused_witness:
  "hero_upload_request example_config example_env (Multipart admin_body [banner_jpg]) fresh_state =
     (error_json 401 ''Invalid password'', fresh_state) \<and>
   hero_upload_request example_config example_env (Multipart admin_body [banner_png]) fresh_state =
     (error_json 401 ''Invalid password'', fresh_state) \<and>
   password admin_body = JStr (ADMIN_PASSWORD example_config) \<and>
   imageFileFilter banner_jpg = None \<and> imageFileFilter banner_png = None \<and>
   get_hero fresh_state = Json 200 defaultHero \<and>
   dom (HERO_UPLOADS_DIR fresh_state) = {}"
proof -
  have "imageFileFilter banner_jpg = None" "imageFileFilter banner_png = None"
    by code_simp+
  moreover have "get_hero fresh_state = Json 200 defaultHero"
    "dom (HERO_UPLOADS_DIR fresh_state) = {}"
    by (simp_all add: get_hero_def fresh_state_def)
  ultimately show ?thesis
    using hero_upload_request_refused
        [of example_config example_env "Multipart admin_body [banner_jpg]" fresh_state]
      hero_upload_request_refused
        [of example_config example_env "Multipart admin_body [banner_png]" fresh_state]
      example_password
    by (simp add: prod_eq_iff)
qed

end
